theory Spec2Isabelle
  imports Complex_Main "HOL-Library.Char_ord" "HOL-Library.List_Lexorder"
begin

section \<open>Numbers, errors and rows\<close>

text \<open>
  Python floats are modelled as real numbers: arithmetic is exact and there is no NaN and
  no infinity. Python ints are \<open>int\<close>. Every exception the code can raise is a value of
  \<open>error\<close>, and a function that can raise returns \<open>error + 'a\<close>.
\<close>

datatype error = KeyError string | ValueError string | ZeroDivisionError

text \<open>
  One row of the data frame (the column \<open>make\<close> is named \<open>make_col\<close> here). A column
  that the frame does not have is \<open>None\<close>; the columns are the raw ones of the data set,
  the ones added by \<open>engineer_domain_features\<close> and \<open>append_sentiment_scores\<close>, and
  \<open>risk_score\<close>, which \<open>predict\<close> adds.
\<close>

record row =
  make_col :: "string option"
  model :: "string option"
  year :: "int option"
  mileage :: "real option"
  avg_trip_length_miles :: "real option"
  maintenance_events :: "int option"
  past_failures :: "int option"
  severity_score :: "real option"
  maintenance_cost_last_year :: "real option"
  fuel_cost_last_year :: "real option"
  complaint_text :: "string option"
  maintenance_action :: "string option"
  has_mechanical_issue :: "int option"
  car_age :: "int option"
  total_cost_last_year :: "real option"
  estimated_next_year_cost :: "real option"
  ownership_cost_score :: "real option"
  sentiment_positive :: "int option"
  sentiment_negative :: "int option"
  sentiment_net :: "int option"
  risk_score :: "real option"

text \<open>\<open>row.get(key, default)\<close> of the source.\<close>

definition get_or :: "'a option \<Rightarrow> 'a \<Rightarrow> 'a" where
  "get_or v d = (case v of None \<Rightarrow> d | Some x \<Rightarrow> x)"

text \<open>
  Python's \<open>round(x, ndigits)\<close>: to the nearest multiple of \<open>10 ^ -ndigits\<close>, a tie going
  to the even neighbour.
\<close>

definition round_half_even :: "real \<Rightarrow> int" where
  "round_half_even x =
     (let f = \<lfloor>x\<rfloor>; d = x - of_int f
      in if d < 1 / 2 then f
         else if 1 / 2 < d then f + 1
         else if even f then f else f + 1)"

definition py_round :: "real \<Rightarrow> nat \<Rightarrow> real" where
  "py_round x ndigits = of_int (round_half_even (x * 10 ^ ndigits)) / 10 ^ ndigits"

text \<open>Python's \<open>int(x)\<close> on a float: truncation towards zero.\<close>

definition py_int :: "real \<Rightarrow> int" where
  "py_int x = (if 0 \<le> x then \<lfloor>x\<rfloor> else \<lceil>x\<rceil>)"

section \<open>Risk bands (src/models/predict.py)\<close>

definition to_risk_band :: "real \<Rightarrow> string" where
  "to_risk_band probability =
     (if probability \<ge> 0.65 then ''High''
      else if probability \<ge> 0.4 then ''Moderate''
      else ''Low'')"

section \<open>Domain features (src/features/preprocess.py)\<close>

definition CURRENT_YEAR :: int where
  "CURRENT_YEAR = 2024"

text \<open>
  \<open>engineer_domain_features\<close> on a frame of one row, as \<open>predict\<close> builds it. The
  pandas operations are element-wise, so each row of a longer frame is treated the same
  way. \<open>engineered["c"]\<close> raises \<open>KeyError\<close> on a missing column;
  \<open>engineered.get("has_mechanical_issue", 0)\<close> does not. \<open>clip(lower=1)\<close> replaces a
  value below 1 by 1.
\<close>

definition engineer_domain_features :: "row \<Rightarrow> error + row" where
  "engineer_domain_features df =
     (case year df of None \<Rightarrow> Inl (KeyError ''year'') | Some y \<Rightarrow>
      case maintenance_cost_last_year df of
        None \<Rightarrow> Inl (KeyError ''maintenance_cost_last_year'') | Some mc \<Rightarrow>
      case fuel_cost_last_year df of
        None \<Rightarrow> Inl (KeyError ''fuel_cost_last_year'') | Some fc \<Rightarrow>
      let total = mc + fc;
          issue_series = (case has_mechanical_issue df of None \<Rightarrow> 0 | Some l \<Rightarrow> of_int l)
      in case avg_trip_length_miles df of
        None \<Rightarrow> Inl (KeyError ''avg_trip_length_miles'') | Some trip \<Rightarrow>
      Inr (df\<lparr>car_age := Some (CURRENT_YEAR - y),
              total_cost_last_year := Some total,
              estimated_next_year_cost := Some (total * (1.05 + 0.02 * issue_series)),
              ownership_cost_score := Some (total / max trip 1)\<rparr>))"

section \<open>Strings\<close>

text \<open>
  Text is a list of 8-bit characters, read as the code points below 256. \<open>isspace\<close>
  holds for the code points that Python's \<open>str.split()\<close> treats as white space there.
\<close>

definition isspace :: "char \<Rightarrow> bool" where
  "isspace c = ((of_char c :: nat) \<in> {9, 10, 11, 12, 13, 28, 29, 30, 31, 32, 133, 160})"

text \<open>
  \<open>text.split()\<close>: the maximal runs of characters that are not white space, in order.
  \<open>cur\<close> holds the run being read, last character first.
\<close>

fun split_from :: "string \<Rightarrow> string \<Rightarrow> string list" where
  "split_from cur [] = (if cur = [] then [] else [rev cur])"
| "split_from cur (c # cs) =
     (if isspace c then (if cur = [] then split_from [] cs else rev cur # split_from [] cs)
      else split_from (c # cur) cs)"

definition py_split :: "string \<Rightarrow> string list" where
  "py_split text = split_from [] text"

text \<open>\<open>word.strip(chars)\<close> removes the characters of \<open>chars\<close> from both ends.\<close>

definition py_strip :: "string \<Rightarrow> string \<Rightarrow> string" where
  "py_strip chars word =
     rev (dropWhile (\<lambda>c. c \<in> set chars) (rev (dropWhile (\<lambda>c. c \<in> set chars) word)))"

text \<open>
  \<open>word.lower()\<close>: below code point 256 the upper-case letters are A to Z and the
  code points 192 to 222 except 215, each 32 below its lower-case letter.
\<close>

definition lower_char :: "char \<Rightarrow> char" where
  "lower_char c =
     (let n = (of_char c :: nat)
      in if (65 \<le> n \<and> n \<le> 90) \<or> (192 \<le> n \<and> n \<le> 222 \<and> n \<noteq> 215)
         then char_of (n + 32) else c)"

definition py_lower :: "string \<Rightarrow> string" where
  "py_lower word = map lower_char word"

text \<open>\<open>str(n)\<close> for an int, as the f-strings of the source print it.\<close>

fun str_nat :: "nat \<Rightarrow> string" where
  "str_nat n =
     (if n < 10 then [char_of (48 + n)] else str_nat (n div 10) @ [char_of (48 + n mod 10)])"

declare str_nat.simps [simp del]

definition py_str :: "int \<Rightarrow> string" where
  "py_str i = (if i < 0 then CHR ''-'' # str_nat (nat (- i)) else str_nat (nat i))"

section \<open>Cost projection and maintenance timeline (src/features/preprocess.py)\<close>

definition COST_FACTORS :: "string \<rightharpoonup> int" where
  "COST_FACTORS =
     [''oil change'' \<mapsto> 120,
      ''brake pad replacement'' \<mapsto> 380,
      ''software update'' \<mapsto> 160,
      ''battery inspection'' \<mapsto> 90,
      ''tire rotation'' \<mapsto> 75]"

record cost_projection =
  maintenance_projection :: real
  fuel_cost_projection :: real
  depreciation_estimate :: real
  total_projection :: real

text \<open>
  The three keyword parameters of the source are arguments here; the defaults of the
  source are 12000, 3.5 and 26. The division raises when \<open>efficiency_mpg\<close> is zero.
\<close>

definition compute_cost_of_ownership :: "row \<Rightarrow> int \<Rightarrow> real \<Rightarrow> real \<Rightarrow> error + cost_projection" where
  "compute_cost_of_ownership r annual_mileage fuel_price_per_gallon efficiency_mpg =
     (let base_maintenance = get_or (COST_FACTORS (get_or (maintenance_action r) [])) 150;
          risk_multiplier = 1.0 + 0.35 * get_or (risk_score r) 0.2;
          maintenance =
            (get_or (maintenance_cost_last_year r) 600 + of_int base_maintenance) * risk_multiplier
      in if efficiency_mpg = 0 then Inl ZeroDivisionError
         else
           let fuel = (of_int annual_mileage / efficiency_mpg) * fuel_price_per_gallon;
               depreciation = max 500 (0.12 * get_or (total_cost_last_year r) 1500)
           in Inr \<lparr>maintenance_projection = py_round maintenance 2,
                   fuel_cost_projection = py_round fuel 2,
                   depreciation_estimate = py_round depreciation 2,
                   total_projection = py_round (maintenance + fuel + depreciation) 2\<rparr>)"

record milestone =
  timeframe :: string
  action :: string

definition generate_maintenance_timeline :: "row \<Rightarrow> milestone list" where
  "generate_maintenance_timeline r =
     (let base_interval = 6;
          risk = get_or (risk_score r) 0.25;
          compression = 1.0 - min (max risk 0.0) 0.95 * 0.4;
          interval_months = max 3 (py_int (base_interval * compression));
          milestones =
            [\<lparr>timeframe = py_str interval_months @ '' months'',
              action = ''Comprehensive inspection & fluid checks''\<rparr>,
             \<lparr>timeframe = py_str (interval_months * 2) @ '' months'',
              action = ''Predictive component diagnostics''\<rparr>,
             \<lparr>timeframe = py_str (interval_months * 3) @ '' months'',
              action = ''System software updates & alignment''\<rparr>]
      in if risk > 0.6
         then milestones @
           [\<lparr>timeframe = ''Next 30 days'',
             action = ''Schedule reliability assessment with specialist''\<rparr>]
         else milestones)"

text \<open>
  How far away a timeframe text is, in days, to compare timeframes: \<open>"<n> months"\<close> is
  read as \<open>30 * n\<close> days and \<open>"Next <n> days"\<close> as \<open>n\<close> days.
\<close>

fun parse_digits :: "nat \<Rightarrow> string \<Rightarrow> nat option" where
  "parse_digits n [] = Some n"
| "parse_digits n (c # cs) =
     (if CHR ''0'' \<le> c \<and> c \<le> CHR ''9''
      then parse_digits (10 * n + (of_char c - 48)) cs else None)"

definition parse_nat :: "string \<Rightarrow> nat option" where
  "parse_nat s = (if s = [] then None else parse_digits 0 s)"

definition timeframe_days :: "string \<Rightarrow> nat option" where
  "timeframe_days s =
     (case py_split s of
        [n, unit] \<Rightarrow> (if unit = ''months'' then map_option (\<lambda>k. 30 * k) (parse_nat n) else None)
      | [next, n, unit] \<Rightarrow> (if next = ''Next'' \<and> unit = ''days'' then parse_nat n else None)
      | _ \<Rightarrow> None)"

text \<open>
  A timeline is nearest-first when every timeframe can be read and each is strictly
  farther away than the one before it.
\<close>

definition nearest_first :: "milestone list \<Rightarrow> bool" where
  "nearest_first ms =
     (case those (map (\<lambda>m. timeframe_days (timeframe m)) ms) of
        None \<Rightarrow> False
      | Some ds \<Rightarrow> sorted_wrt (<) ds)"

section \<open>Sentiment scores (src/nlp/sentiment.py)\<close>

definition POSITIVE_WORDS :: "string set" where
  "POSITIVE_WORDS =
     {''reliable'', ''smooth'', ''satisfied'', ''comfortable'', ''quiet'', ''refined'',
      ''responsive''}"

definition NEGATIVE_WORDS :: "string set" where
  "NEGATIVE_WORDS =
     {''frustrating'', ''disappointed'', ''unsafe'', ''annoying'', ''expensive'', ''noisy'',
      ''rough'', ''lag'', ''stall'', ''failure''}"

record SentimentScores =
  positive :: int
  negative :: int
  net :: int

text \<open>
  \<open>words\<close> is a Python set: each normalized word is in it once, however often it
  occurs in the text.
\<close>

definition score_text :: "string \<Rightarrow> SentimentScores" where
  "score_text text =
     (let words = (\<lambda>word. py_lower (py_strip ''.,!?'' word)) ` set (py_split text);
          pos = int (card (words \<inter> POSITIVE_WORDS));
          neg = int (card (words \<inter> NEGATIVE_WORDS))
      in \<lparr>positive = pos, negative = neg, net = pos - neg\<rparr>)"

definition append_sentiment_scores :: "row \<Rightarrow> error + row" where
  "append_sentiment_scores df =
     (case complaint_text df of
        None \<Rightarrow> Inl (KeyError ''complaint_text'')
      | Some text \<Rightarrow>
          let s = score_text text
          in Inr (df\<lparr>sentiment_positive := Some (positive s),
                    sentiment_negative := Some (negative s),
                    sentiment_net := Some (net s)\<rparr>))"

text \<open>
  The scorer as the specification words it, to compare with the source: each token
  loses its trailing punctuation only, and the counts are numbers of tokens.
\<close>

definition py_rstrip :: "string \<Rightarrow> string \<Rightarrow> string" where
  "py_rstrip chars word = rev (dropWhile (\<lambda>c. c \<in> set chars) (rev word))"

definition score_text_spec :: "string \<Rightarrow> SentimentScores" where
  "score_text_spec text =
     (let tokens = map (\<lambda>word. py_rstrip ''.,!?'' (py_lower word)) (py_split text);
          pos = int (length (filter (\<lambda>w. w \<in> POSITIVE_WORDS) tokens));
          neg = int (length (filter (\<lambda>w. w \<in> NEGATIVE_WORDS) tokens))
      in \<lparr>positive = pos, negative = neg, net = pos - neg\<rparr>)"

section \<open>Inference (src/models/predict.py)\<close>

record PredictionResult =
  probability :: real
  risk_band :: string
  cost_projection :: cost_projection
  maintenance_timeline :: "milestone list"

text \<open>
  \<open>predict\<close> works on objects that it shares by reference: the caller's record, the
  frames that pandas builds and copies, and the loaded pipeline. They are kept in an
  explicit store. \<open>objects\<close> holds the columns of every record, frame and row, an object's
  address being its index; \<open>pipeline\<close> is the state of the object \<open>self.pipeline\<close>. A
  new object takes the next address, and a column assignment \<open>frame["c"] = v\<close> changes
  the object at the frame's address in place. The address of an object that the program
  holds is below \<open>length (objects w)\<close>.
\<close>

record 'p world =
  objects :: "row list"
  pipeline :: 'p

definition alloc :: "row \<Rightarrow> 'p world \<Rightarrow> nat \<times> 'p world" where
  "alloc r w = (length (objects w), w\<lparr>objects := objects w @ [r]\<rparr>)"

definition column_assign :: "nat \<Rightarrow> (row \<Rightarrow> row) \<Rightarrow> 'p world \<Rightarrow> 'p world" where
  "column_assign a f w = w\<lparr>objects := (objects w)[a := f (objects w ! a)]\<rparr>"

text \<open>
  \<open>engineer_domain_features\<close> and \<open>append_sentiment_scores\<close> statement by statement on
  the store: \<open>df.copy()\<close> makes a new object, and every assignment that follows writes to
  the copy. The functions of the same names above give the columns of the frame that
  they return.
\<close>

definition engineer_domain_features_store :: "nat \<Rightarrow> 'p world \<Rightarrow> (error + nat) \<times> 'p world" where
  "engineer_domain_features_store df w0 =
     (let (engineered, w1) = alloc (objects w0 ! df) w0
      in case year (objects w1 ! engineered) of
        None \<Rightarrow> (Inl (KeyError ''year''), w1)
      | Some y \<Rightarrow>
     (let w2 = column_assign engineered (\<lambda>r. r\<lparr>car_age := Some (CURRENT_YEAR - y)\<rparr>) w1
      in case maintenance_cost_last_year (objects w2 ! engineered) of
        None \<Rightarrow> (Inl (KeyError ''maintenance_cost_last_year''), w2)
      | Some mc \<Rightarrow>
     (case fuel_cost_last_year (objects w2 ! engineered) of
        None \<Rightarrow> (Inl (KeyError ''fuel_cost_last_year''), w2)
      | Some fc \<Rightarrow>
     (let w3 = column_assign engineered (\<lambda>r. r\<lparr>total_cost_last_year := Some (mc + fc)\<rparr>) w2;
          issue_series =
            (case has_mechanical_issue (objects w3 ! engineered) of
               None \<Rightarrow> 0 | Some l \<Rightarrow> of_int l)
      in case total_cost_last_year (objects w3 ! engineered) of
        None \<Rightarrow> (Inl (KeyError ''total_cost_last_year''), w3)
      | Some total_cost \<Rightarrow>
     (let w4 = column_assign engineered
            (\<lambda>r. r\<lparr>estimated_next_year_cost := Some (total_cost * (1.05 + 0.02 * issue_series))\<rparr>) w3
      in case avg_trip_length_miles (objects w4 ! engineered) of
        None \<Rightarrow> (Inl (KeyError ''avg_trip_length_miles''), w4)
      | Some trip \<Rightarrow>
          (Inr engineered,
           column_assign engineered
             (\<lambda>r. r\<lparr>ownership_cost_score := Some (total_cost / max trip 1)\<rparr>) w4))))))"

definition append_sentiment_scores_store :: "nat \<Rightarrow> 'p world \<Rightarrow> (error + nat) \<times> 'p world" where
  "append_sentiment_scores_store df w0 =
     (let (enriched, w1) = alloc (objects w0 ! df) w0
      in case complaint_text (objects w1 ! df) of
        None \<Rightarrow> (Inl (KeyError ''complaint_text''), w1)
      | Some text \<Rightarrow>
          let s = score_text text
          in (Inr enriched,
              column_assign enriched
                (\<lambda>r. r\<lparr>sentiment_positive := Some (positive s),
                        sentiment_negative := Some (negative s),
                        sentiment_net := Some (net s)\<rparr>) w1))"

text \<open>
  \<open>_prepare_frame([record])\<close>: \<open>pd.DataFrame(list(records))\<close> builds a new frame from the
  columns of the record at address \<open>rec\<close>.
\<close>

definition prepare_frame :: "nat \<Rightarrow> 'p world \<Rightarrow> (error + nat) \<times> 'p world" where
  "prepare_frame rec w0 =
     (let (df, w1) = alloc (objects w0 ! rec) w0
      in case engineer_domain_features_store df w1 of
        (Inl e, w2) \<Rightarrow> (Inl e, w2)
      | (Inr engineered, w2) \<Rightarrow> append_sentiment_scores_store engineered w2)"

text \<open>
  \<open>predict\<close> on the record at address \<open>rec\<close>. \<open>predict_proba\<close> stands for
  \<open>float(self.pipeline.predict_proba(frame)[0, 1])\<close>, library code: it reads the pipeline
  object and the columns of the frame, returns the class-1 probability or raises, and
  leaves the pipeline object in a state of its choice. \<open>frame["risk_score"] = proba\<close>
  assigns in place to the frame that \<open>_prepare_frame\<close> returned; \<open>frame.iloc[0]\<close> reads
  its row.
\<close>

definition predict ::
  "('p \<Rightarrow> row \<Rightarrow> (error + real) \<times> 'p) \<Rightarrow> nat \<Rightarrow> 'p world \<Rightarrow>
     (error + PredictionResult) \<times> 'p world" where
  "predict predict_proba rec w0 =
     (case prepare_frame rec w0 of
        (Inl e, w1) \<Rightarrow> (Inl e, w1)
      | (Inr frame, w1) \<Rightarrow>
     (case predict_proba (pipeline w1) (objects w1 ! frame) of
        (Inl e, p) \<Rightarrow> (Inl e, w1\<lparr>pipeline := p\<rparr>)
      | (Inr proba, p) \<Rightarrow>
     (let w2 = w1\<lparr>pipeline := p\<rparr>;
          band = to_risk_band proba;
          w3 = column_assign frame (\<lambda>r. r\<lparr>risk_score := Some proba\<rparr>) w2
      in case compute_cost_of_ownership (objects w3 ! frame) 12000 3.5 26 of
           Inl e \<Rightarrow> (Inl e, w3)
         | Inr cost \<Rightarrow>
             (Inr \<lparr>probability = proba, risk_band = band, cost_projection = cost,
                   maintenance_timeline = generate_maintenance_timeline (objects w3 ! frame)\<rparr>,
              w3))))"

section \<open>Complaint patterns (src/nlp/complaint_analysis.py)\<close>

text \<open>
  \<open>_tokenize_phrases\<close> calls scikit-learn's
  \<open>CountVectorizer(ngram_range, stop_words="english", min_df=2).fit_transform\<close>, library
  code outside the repository. It is modelled here from the library's behaviour.
  The vectorizer's analyzer (lower-casing, tokenizing, removal of the English stop words,
  word n-grams of the given range) is a parameter \<open>analyze\<close>. \<open>fit_transform\<close> collects
  the vocabulary, raises \<open>ValueError\<close> when it is empty, raises \<open>ValueError\<close> when the
  corpus has fewer documents than \<open>min_df\<close> (\<open>max_df\<close> is 1.0, all of the documents),
  drops the terms that occur in fewer than \<open>min_df\<close> documents, raises \<open>ValueError\<close> when
  no term remains, and returns the remaining terms in sorted order with the matrix of
  their counts, a row for each document.
\<close>

type_synonym analyzer = "nat \<times> nat \<Rightarrow> string \<Rightarrow> string list"

definition document_frequency :: "(string \<Rightarrow> string list) \<Rightarrow> string list \<Rightarrow> string \<Rightarrow> nat" where
  "document_frequency analyze_doc corpus term =
     length (filter (\<lambda>doc. term \<in> set (analyze_doc doc)) corpus)"

definition fit_transform ::
  "(string \<Rightarrow> string list) \<Rightarrow> nat \<Rightarrow> string list \<Rightarrow> error + string list \<times> nat list list" where
  "fit_transform analyze_doc min_df corpus =
     (let vocabulary = remdups (concat (map analyze_doc corpus))
      in if vocabulary = []
         then Inl (ValueError ''empty vocabulary; perhaps the documents only contain stop words'')
         else if length corpus < min_df
         then Inl (ValueError ''max_df corresponds to < documents than min_df'')
         else
           let kept = filter (\<lambda>t. min_df \<le> document_frequency analyze_doc corpus t) vocabulary
           in if kept = []
              then Inl (ValueError
                ''After pruning, no terms remain. Try a lower min_df or a higher max_df.'')
              else
                let terms = sort kept
                in Inr (terms, map (\<lambda>doc. map (count_list (analyze_doc doc)) terms) corpus))"

definition tokenize_phrases ::
  "analyzer \<Rightarrow> string list \<Rightarrow> nat \<times> nat \<Rightarrow> error + (string \<times> nat) list" where
  "tokenize_phrases analyze corpus ngram_range =
     (case fit_transform (analyze ngram_range) 2 corpus of
        Inl e \<Rightarrow> Inl e
      | Inr (terms, matrix) \<Rightarrow>
          let counts = map (\<lambda>j. sum_list (map (\<lambda>doc_counts. doc_counts ! j) matrix))
                         [0..<length terms]
          in Inr (zip terms counts))"

text \<open>numpy's \<open>mean\<close> and \<open>std\<close> (the population standard deviation).\<close>

definition mean :: "real list \<Rightarrow> real" where
  "mean xs = sum_list xs / of_nat (length xs)"

definition std :: "real list \<Rightarrow> real" where
  "std xs = sqrt (mean (map (\<lambda>x. (x - mean xs)\<^sup>2) xs))"

record pattern_score =
  pattern :: string
  weighted_score :: real

text \<open>
  The frame is the list of its rows. \<open>most_common(top_n)\<close> orders by decreasing score,
  equal scores in insertion order, and keeps the first \<open>top_n\<close>.
\<close>

definition identify_common_failure_patterns ::
  "analyzer \<Rightarrow> row list \<Rightarrow> int \<Rightarrow> error + pattern_score list" where
  "identify_common_failure_patterns analyze df top_n =
     (if df = [] then Inr []
      else
        case those (map complaint_text df) of
          None \<Rightarrow> Inl (KeyError ''complaint_text'')
        | Some corpus \<Rightarrow>
       (case tokenize_phrases analyze corpus (2, 3) of
          Inl e \<Rightarrow> Inl e
        | Inr counter \<Rightarrow>
       (case those (map severity_score df) of
          None \<Rightarrow> Inl (KeyError ''severity_score'')
        | Some severity \<Rightarrow>
            let weighted_counts =
                  map (\<lambda>(phrase, count).
                         (phrase, of_nat count * (mean severity / max (std severity) 0.5)))
                    counter;
                most_common =
                  take (nat top_n) (sort_key (\<lambda>(phrase, score). - score) weighted_counts)
            in Inr (map (\<lambda>(phrase, score).
                           \<lparr>pattern = phrase, weighted_score = py_round score 2\<rparr>)
                      most_common))))"

text \<open>
  An analyzer for examples: it lower-cases the text, splits it at white space and forms
  the word n-grams of the range, the shorter ones first, as the library does. It
  agrees with the library's analyzer on a text whose words are made of letters, are two
  or more letters long and are not stop words.
\<close>

fun join_words :: "string list \<Rightarrow> string" where
  "join_words [] = []"
| "join_words [w] = w"
| "join_words (w # ws) = w @ '' '' @ join_words ws"

definition word_ngrams :: "nat \<times> nat \<Rightarrow> string list \<Rightarrow> string list" where
  "word_ngrams ngram_range tokens =
     concat (map (\<lambda>n. map (\<lambda>i. join_words (take n (drop i tokens)))
                         [0..<length tokens - n + 1])
               [fst ngram_range..<min (snd ngram_range + 1) (length tokens + 1)])"

definition plain_analyzer :: analyzer where
  "plain_analyzer ngram_range doc = word_ngrams ngram_range (py_split (py_lower doc))"

text \<open>A row with no column at all, to build examples from.\<close>

definition empty_row :: row where
  "empty_row =
     \<lparr>make_col = None, model = None, year = None, mileage = None,
      avg_trip_length_miles = None, maintenance_events = None, past_failures = None,
      severity_score = None, maintenance_cost_last_year = None,
      fuel_cost_last_year = None, complaint_text = None, maintenance_action = None,
      has_mechanical_issue = None, car_age = None, total_cost_last_year = None,
      estimated_next_year_cost = None, ownership_cost_score = None,
      sentiment_positive = None, sentiment_negative = None, sentiment_net = None,
      risk_score = None\<rparr>"

text \<open>
  The maintenance projection as the specification words it: the base estimate of the
  cost table times the risk multiplier. It is compared with the source below.
\<close>

definition maintenance_projection_spec :: "row \<Rightarrow> real" where
  "maintenance_projection_spec r =
     of_int (get_or (COST_FACTORS (get_or (maintenance_action r) [])) 150) *
       (1 + 0.35 * get_or (risk_score r) 0.2)"

text \<open>Rows used as examples.\<close>

definition oil_change_row :: row where
  "oil_change_row =
     empty_row\<lparr>maintenance_action := Some ''oil change'',
       maintenance_cost_last_year := Some 600, risk_score := Some 0.5\<rparr>"

definition rounding_row :: row where
  "rounding_row =
     empty_row\<lparr>maintenance_action := Some ''oil change'',
       maintenance_cost_last_year := Some 600, total_cost_last_year := Some 5000.03,
       risk_score := Some 0\<rparr>"

definition high_risk_row :: row where
  "high_risk_row = empty_row\<lparr>risk_score := Some 0.7\<rparr>"

text \<open>The first three milestones of a timeline whose interval is \<open>k\<close> months.\<close>

definition three_milestones :: "int \<Rightarrow> milestone list" where
  "three_milestones k =
     [\<lparr>timeframe = py_str k @ '' months'',
       action = ''Comprehensive inspection & fluid checks''\<rparr>,
      \<lparr>timeframe = py_str (k * 2) @ '' months'',
       action = ''Predictive component diagnostics''\<rparr>,
      \<lparr>timeframe = py_str (k * 3) @ '' months'',
       action = ''System software updates & alignment''\<rparr>]"

text \<open>
  A record, two pipelines and a complaint frame used as examples. The first pipeline
  reads the sentiment columns of the frame and keeps its state; the second one counts
  its calls in its state and answers by the count.
\<close>

definition example_predict_proba :: "nat \<Rightarrow> row \<Rightarrow> (error + real) \<times> nat" where
  "example_predict_proba p frame =
     (case sentiment_net frame of
        None \<Rightarrow> (Inl (KeyError ''sentiment_net''), p)
      | Some n \<Rightarrow> (Inr (if n < 0 then 0.7 else 0.3), p))"

definition counting_predict_proba :: "nat \<Rightarrow> row \<Rightarrow> (error + real) \<times> nat" where
  "counting_predict_proba p frame = (Inr (if even p then 0.7 else 0.3), Suc p)"

definition example_record :: row where
  "example_record =
     empty_row\<lparr>year := Some 2018, avg_trip_length_miles := Some 12,
       maintenance_cost_last_year := Some 600, fuel_cost_last_year := Some 900,
       complaint_text := Some ''Noisy brakes and a rough ride'',
       maintenance_action := Some ''oil change''\<rparr>"

definition example_world :: "nat world" where
  "example_world = \<lparr>objects = [example_record], pipeline = 0\<rparr>"

definition complaint_rows :: "row list" where
  "complaint_rows =
     [empty_row\<lparr>complaint_text := Some ''brake squeal'', severity_score := Some 3\<rparr>,
      empty_row\<lparr>complaint_text := Some ''engine stall'', severity_score := Some 5\<rparr>]"


section \<open>Properties\<close>

subsection \<open>Risk bands\<close>

text \<open>
  C1. For every probability \<open>p\<close> the risk band is High exactly when \<open>p \<ge> 0.65\<close>,
  Moderate exactly when \<open>0.40 \<le> p < 0.65\<close> and Low exactly when \<open>p < 0.40\<close>.
\<close>

theorem risk_band_thresholds:
  "(to_risk_band p = ''High'' \<longleftrightarrow> 0.65 \<le> p) \<and>
   (to_risk_band p = ''Moderate'' \<longleftrightarrow> 0.40 \<le> p \<and> p < 0.65) \<and>
   (to_risk_band p = ''Low'' \<longleftrightarrow> p < 0.40)"
  by (simp add: to_risk_band_def)

theorem risk_band_thresholds_witness:
  "to_risk_band 0.65 = ''High'' \<and> to_risk_band 0.4 = ''Moderate'' \<and>
   to_risk_band 0.3 = ''Low'' \<and> to_risk_band 0.9 = ''High''"
  using risk_band_thresholds [of "0.65"] risk_band_thresholds [of "0.4"]
    risk_band_thresholds [of "0.3"] risk_band_thresholds [of "0.9"]
  by simp

text \<open>
  The source compares binary64 floats with the binary64 constants nearest to 0.65 and
  0.4, which are \<open>5854679515581645 / 2 ^ 53\<close> and \<open>3602879701896397 / 2 ^ 53\<close>. On the
  grid of multiples of \<open>2 ^ -53\<close>, which holds every binary64 number of \<open>[1/4, 1)\<close>, a
  comparison with these constants and a comparison with the decimal thresholds agree.
\<close>

lemma binary64_grid_thresholds:
  fixes k :: int
  shows "(5854679515581645 / 2 ^ 53 \<le> (of_int k :: real) / 2 ^ 53 \<longleftrightarrow> 0.65 \<le> (of_int k :: real) / 2 ^ 53)"
    and "(3602879701896397 / 2 ^ 53 \<le> (of_int k :: real) / 2 ^ 53 \<longleftrightarrow> 0.4 \<le> (of_int k :: real) / 2 ^ 53)"
proof -
  have a: "(5854679515581645 \<le> k) = (0.65 * 2 ^ 53 \<le> (of_int k :: real))"
  proof
    assume "5854679515581645 \<le> k"
    then have "(5854679515581645 :: real) \<le> of_int k" by linarith
    then show "0.65 * 2 ^ 53 \<le> (of_int k :: real)" by simp
  next
    assume h: "0.65 * 2 ^ 53 \<le> (of_int k :: real)"
    have "(5854679515581644 :: real) < of_int k" using h by simp
    then have "5854679515581644 < k" by linarith
    then show "5854679515581645 \<le> k" by simp
  qed
  have b: "(3602879701896397 \<le> k) = (0.4 * 2 ^ 53 \<le> (of_int k :: real))"
  proof
    assume "3602879701896397 \<le> k"
    then have "(3602879701896397 :: real) \<le> of_int k" by linarith
    then show "0.4 * 2 ^ 53 \<le> (of_int k :: real)" by simp
  next
    assume h: "0.4 * 2 ^ 53 \<le> (of_int k :: real)"
    have "(3602879701896396 :: real) < of_int k" using h by simp
    then have "3602879701896396 < k" by linarith
    then show "3602879701896397 \<le> k" by simp
  qed
  show "(5854679515581645 / 2 ^ 53 \<le> (of_int k :: real) / 2 ^ 53 \<longleftrightarrow> 0.65 \<le> (of_int k :: real) / 2 ^ 53)"
    using a by (simp add: field_simps)
  show "(3602879701896397 / 2 ^ 53 \<le> (of_int k :: real) / 2 ^ 53 \<longleftrightarrow> 0.4 \<le> (of_int k :: real) / 2 ^ 53)"
    using b by (simp add: field_simps)
qed

subsection \<open>Domain features\<close>

text \<open>
  C7. The ownership-cost score is the total cost divided by the average trip length
  floored at 1: the divisor is never below 1, whatever trip length is supplied, so the
  score is never larger in magnitude than the total cost.
\<close>

theorem ownership_cost_divisor_floored:
  assumes "year df = Some y"
    and "maintenance_cost_last_year df = Some mc"
    and "fuel_cost_last_year df = Some fc"
    and "avg_trip_length_miles df = Some trip"
  shows "\<exists>e. engineer_domain_features df = Inr e \<and>
           total_cost_last_year e = Some (mc + fc) \<and>
           ownership_cost_score e = Some ((mc + fc) / max trip 1) \<and>
           1 \<le> max trip 1 \<and>
           \<bar>(mc + fc) / max trip 1\<bar> \<le> \<bar>mc + fc\<bar>"
proof -
  have d: "1 \<le> max trip 1" by simp
  have "\<bar>(mc + fc) / max trip 1\<bar> = \<bar>mc + fc\<bar> / max trip 1"
    using d by simp
  also have "\<dots> \<le> \<bar>mc + fc\<bar> / 1"
    using d by (intro divide_left_mono) simp_all
  finally have b: "\<bar>(mc + fc) / max trip 1\<bar> \<le> \<bar>mc + fc\<bar>" by simp
  show ?thesis
    using assms d b by (simp add: engineer_domain_features_def Let_def)
qed

theorem ownership_cost_divisor_floored_witness:
  "\<exists>e. engineer_domain_features
          (empty_row\<lparr>year := Some 2020, maintenance_cost_last_year := Some 600,
             fuel_cost_last_year := Some 900, avg_trip_length_miles := Some 0\<rparr>) = Inr e \<and>
        ownership_cost_score e = Some 1500"
  using ownership_cost_divisor_floored
    [of "empty_row\<lparr>year := Some 2020, maintenance_cost_last_year := Some 600,
           fuel_cost_last_year := Some 900, avg_trip_length_miles := Some 0\<rparr>"
        2020 600 900 0]
  by (auto simp add: empty_row_def)

text \<open>
  C8. When the outcome label column is absent, feature engineering does not fail and the
  estimated next-year cost is the prior-year total cost times the baseline factor 1.05
  alone (the correction term is zero); when the label is present, a penalty of 0.02
  times the label times the total cost is added.
\<close>

theorem next_year_cost_label:
  assumes "year df = Some y"
    and "maintenance_cost_last_year df = Some mc"
    and "fuel_cost_last_year df = Some fc"
    and "avg_trip_length_miles df = Some trip"
  shows "(has_mechanical_issue df = None \<longrightarrow>
            (\<exists>e. engineer_domain_features df = Inr e \<and>
                 estimated_next_year_cost e = Some ((mc + fc) * 1.05))) \<and>
         (\<forall>l. has_mechanical_issue df = Some l \<longrightarrow>
            (\<exists>e. engineer_domain_features df = Inr e \<and>
                 estimated_next_year_cost e =
                   Some ((mc + fc) * 1.05 + 0.02 * of_int l * (mc + fc))))"
  using assms by (simp add: engineer_domain_features_def Let_def algebra_simps)

theorem next_year_cost_label_witness:
  "(\<exists>e. engineer_domain_features
          (empty_row\<lparr>year := Some 2020, maintenance_cost_last_year := Some 600,
             fuel_cost_last_year := Some 900, avg_trip_length_miles := Some 12\<rparr>) = Inr e \<and>
        estimated_next_year_cost e = Some 1575) \<and>
   (\<exists>e. engineer_domain_features
          (empty_row\<lparr>year := Some 2020, maintenance_cost_last_year := Some 600,
             fuel_cost_last_year := Some 900, avg_trip_length_miles := Some 12,
             has_mechanical_issue := Some 1\<rparr>) = Inr e \<and>
        estimated_next_year_cost e = Some 1605)"
  using next_year_cost_label
    [of "empty_row\<lparr>year := Some 2020, maintenance_cost_last_year := Some 600,
           fuel_cost_last_year := Some 900, avg_trip_length_miles := Some 12\<rparr>"
        2020 600 900 12]
    next_year_cost_label
    [of "empty_row\<lparr>year := Some 2020, maintenance_cost_last_year := Some 600,
           fuel_cost_last_year := Some 900, avg_trip_length_miles := Some 12,
           has_mechanical_issue := Some 1\<rparr>"
        2020 600 900 12]
  by (simp add: empty_row_def)

subsection \<open>Rounding\<close>

lemma floor_le_round_half_even: "\<lfloor>x\<rfloor> \<le> round_half_even x"
  by (simp add: round_half_even_def Let_def)

lemma round_half_even_error: "\<bar>of_int (round_half_even x) - x\<bar> \<le> 1 / 2"
proof -
  have "of_int \<lfloor>x\<rfloor> \<le> x" "x < of_int \<lfloor>x\<rfloor> + 1" by linarith+
  then show ?thesis
    by (auto simp add: round_half_even_def Let_def abs_le_iff)
qed

lemma py_round_error: "\<bar>py_round x 2 - x\<bar> \<le> 1 / 200"
proof -
  have "\<bar>of_int (round_half_even (x * 100)) - x * 100\<bar> \<le> 1 / 2"
    by (rule round_half_even_error)
  then have "\<bar>(of_int (round_half_even (x * 100)) - x * 100) / 100\<bar> \<le> (1 / 2) / 100"
    by (simp add: abs_le_iff)
  then show ?thesis
    by (simp add: py_round_def diff_divide_distrib)
qed

lemma py_round_ge_500:
  assumes "500 \<le> x"
  shows "500 \<le> py_round x 2"
proof -
  have "(50000 :: int) \<le> \<lfloor>x * 100\<rfloor>"
    using assms by (simp add: le_floor_iff)
  then have "(50000 :: int) \<le> round_half_even (x * 100)"
    using floor_le_round_half_even [of "x * 100"] by linarith
  then have "(50000 :: real) \<le> of_int (round_half_even (x * 100))"
    by linarith
  then show ?thesis
    by (simp add: py_round_def)
qed

subsection \<open>Timeline helpers\<close>

text \<open>
  The risk is clamped to \<open>[0, 0.95]\<close>, so six times the compression lies in
  \<open>[3.72, 6]\<close> and the interval is 3, 4, 5 or 6 months.
\<close>

lemma interval_months_range:
  fixes risk :: real
  defines "k \<equiv> max 3 (py_int (6 * (1.0 - min (max risk 0.0) 0.95 * 0.4)))"
  shows "k = 3 \<or> k = 4 \<or> k = 5 \<or> k = 6"
proof -
  define c where "c = 6 * (1.0 - min (max risk 0.0) 0.95 * 0.4)"
  have lo: "3 \<le> c" and hi: "c \<le> 6"
    by (simp_all add: c_def min_def max_def)
  define f where "f = \<lfloor>c\<rfloor>"
  have "3 \<le> f" "f \<le> 6"
    using lo hi by (simp_all add: f_def le_floor_iff floor_le_iff)
  moreover have "k = max 3 f"
    using lo by (simp add: k_def c_def f_def py_int_def)
  ultimately show ?thesis by arith
qed

lemma months_days:
  "timeframe_days (py_str 3 @ '' months'') = Some 90"
  "timeframe_days (py_str 4 @ '' months'') = Some 120"
  "timeframe_days (py_str 5 @ '' months'') = Some 150"
  "timeframe_days (py_str 6 @ '' months'') = Some 180"
  "timeframe_days (py_str 8 @ '' months'') = Some 240"
  "timeframe_days (py_str 9 @ '' months'') = Some 270"
  "timeframe_days (py_str 10 @ '' months'') = Some 300"
  "timeframe_days (py_str 12 @ '' months'') = Some 360"
  "timeframe_days (py_str 15 @ '' months'') = Some 450"
  "timeframe_days (py_str 18 @ '' months'') = Some 540"
  by code_simp+

lemma next_30_days: "timeframe_days ''Next 30 days'' = Some 30"
  by code_simp

subsection \<open>Cost projection\<close>

lemmas cost_eval =
  empty_row_def compute_cost_of_ownership_def get_or_def COST_FACTORS_def py_round_def
  round_half_even_def Let_def

text \<open>
  C3, as stated, fails: with a prior-year total cost of 5000.03 the depreciation
  600.0036 is reported as 600.00, the fuel projection 1615.3846... as 1615.38, and the
  total 2935.388... as 2935.39, which is not 720 + 1615.38 + 600 = 2935.38.
\<close>

theorem cost_total_not_sum_of_parts:
  "compute_cost_of_ownership rounding_row 12000 3.5 26 =
     Inr \<lparr>maintenance_projection = 720, fuel_cost_projection = 1615.38,
          depreciation_estimate = 600, total_projection = 2935.39\<rparr> \<and>
   total_projection (projr (compute_cost_of_ownership rounding_row 12000 3.5 26)) \<noteq>
     maintenance_projection (projr (compute_cost_of_ownership rounding_row 12000 3.5 26)) +
     fuel_cost_projection (projr (compute_cost_of_ownership rounding_row 12000 3.5 26)) +
     depreciation_estimate (projr (compute_cost_of_ownership rounding_row 12000 3.5 26))"
  by (simp add: rounding_row_def cost_eval)

text \<open>
  C3, amended. The total is the sum of the three unrounded parts, rounded to two
  decimals; each of the three parts is reported rounded to two decimals; the
  depreciation figure is at least 500; the reported total differs from the sum of the
  three reported parts by at most 0.02.
\<close>

theorem cost_projection_total:
  assumes "efficiency_mpg \<noteq> 0"
  shows "\<exists>c m f d.
     compute_cost_of_ownership r annual_mileage fuel_price_per_gallon efficiency_mpg = Inr c \<and>
     m = (get_or (maintenance_cost_last_year r) 600 +
            of_int (get_or (COST_FACTORS (get_or (maintenance_action r) [])) 150)) *
          (1 + 0.35 * get_or (risk_score r) 0.2) \<and>
     f = of_int annual_mileage / efficiency_mpg * fuel_price_per_gallon \<and>
     d = max 500 (0.12 * get_or (total_cost_last_year r) 1500) \<and>
     maintenance_projection c = py_round m 2 \<and>
     fuel_cost_projection c = py_round f 2 \<and>
     depreciation_estimate c = py_round d 2 \<and>
     total_projection c = py_round (m + f + d) 2 \<and>
     500 \<le> depreciation_estimate c \<and>
     \<bar>total_projection c -
       (maintenance_projection c + fuel_cost_projection c + depreciation_estimate c)\<bar> \<le> 0.02"
proof -
  define m where "m = (get_or (maintenance_cost_last_year r) 600 +
            of_int (get_or (COST_FACTORS (get_or (maintenance_action r) [])) 150)) *
          (1 + 0.35 * get_or (risk_score r) 0.2)"
  define f where "f = of_int annual_mileage / efficiency_mpg * fuel_price_per_gallon"
  define d where "d = max 500 (0.12 * get_or (total_cost_last_year r) 1500)"
  define c where "c = \<lparr>maintenance_projection = py_round m 2,
     fuel_cost_projection = py_round f 2, depreciation_estimate = py_round d 2,
     total_projection = py_round (m + f + d) 2\<rparr>"
  have run: "compute_cost_of_ownership r annual_mileage fuel_price_per_gallon efficiency_mpg = Inr c"
    using assms by (simp add: compute_cost_of_ownership_def Let_def c_def m_def f_def d_def)
  have "500 \<le> d" by (simp add: d_def)
  then have dep: "500 \<le> py_round d 2" by (rule py_round_ge_500)
  have e: "\<bar>py_round m 2 - m\<bar> \<le> 1 / 200" "\<bar>py_round f 2 - f\<bar> \<le> 1 / 200"
    "\<bar>py_round d 2 - d\<bar> \<le> 1 / 200" "\<bar>py_round (m + f + d) 2 - (m + f + d)\<bar> \<le> 1 / 200"
    by (rule py_round_error)+
  have close: "\<bar>py_round (m + f + d) 2 - (py_round m 2 + py_round f 2 + py_round d 2)\<bar> \<le> 1 / 50"
    using e by linarith
  show ?thesis
    using run dep close by (simp add: c_def m_def f_def d_def)
qed

theorem cost_projection_total_witness:
  "\<exists>c. compute_cost_of_ownership rounding_row 12000 3.5 26 = Inr c \<and>
        total_projection c = 2935.39 \<and> depreciation_estimate c = 600 \<and>
        \<bar>total_projection c -
          (maintenance_projection c + fuel_cost_projection c + depreciation_estimate c)\<bar> \<le> 0.02"
  using cost_projection_total [of 26 rounding_row 12000 "3.5"]
  by (simp add: rounding_row_def cost_eval)

text \<open>
  C4, as stated, fails: for an oil change (base 120), a prior-year maintenance cost of 600
  and a risk score of 0.5, the maintenance projection is (600 + 120) * 1.175 = 846, not
  120 * 1.175 = 141.
\<close>

theorem maintenance_projection_not_base_times_multiplier:
  "compute_cost_of_ownership oil_change_row 12000 3.5 26 =
     Inr \<lparr>maintenance_projection = 846, fuel_cost_projection = 1615.38,
          depreciation_estimate = 500, total_projection = 2961.38\<rparr> \<and>
   maintenance_projection_spec oil_change_row = 141 \<and>
   maintenance_projection (projr (compute_cost_of_ownership oil_change_row 12000 3.5 26)) \<noteq>
     maintenance_projection_spec oil_change_row"
  by (simp add: oil_change_row_def maintenance_projection_spec_def cost_eval)

text \<open>
  C4, amended. The maintenance projection is the prior-year maintenance cost (600 when
  absent) plus the base estimate of the cost table (150 for an action that is not in
  the table), times the risk multiplier \<open>1 + 0.35 * risk_score\<close> (risk score 0.2 when
  absent), rounded to two decimals. It is the rounded base estimate times the multiplier
  when the prior-year maintenance cost is zero.
\<close>

theorem maintenance_projection_value:
  assumes "efficiency_mpg \<noteq> 0"
  shows "\<exists>c base.
     compute_cost_of_ownership r annual_mileage fuel_price_per_gallon efficiency_mpg = Inr c \<and>
     base = (case COST_FACTORS (get_or (maintenance_action r) []) of None \<Rightarrow> 150 | Some v \<Rightarrow> v) \<and>
     (get_or (maintenance_action r) [] \<notin>
        {''oil change'', ''brake pad replacement'', ''software update'',
         ''battery inspection'', ''tire rotation''} \<longrightarrow> base = 150) \<and>
     maintenance_projection c =
       py_round ((get_or (maintenance_cost_last_year r) 600 + of_int base) *
                 (1 + 0.35 * get_or (risk_score r) 0.2)) 2 \<and>
     (maintenance_cost_last_year r = Some 0 \<longrightarrow>
        maintenance_projection c = py_round (maintenance_projection_spec r) 2)"
  using assms
  by (auto simp add: compute_cost_of_ownership_def Let_def get_or_def COST_FACTORS_def
        maintenance_projection_spec_def)

theorem maintenance_projection_value_witness:
  "\<exists>c. compute_cost_of_ownership oil_change_row 12000 3.5 26 = Inr c \<and>
        maintenance_projection c = 846"
  using maintenance_projection_value [of 26 oil_change_row 12000 "3.5"]
  by (simp add: oil_change_row_def cost_eval)

subsection \<open>Maintenance timeline\<close>

lemma generate_maintenance_timeline_unfold:
  "generate_maintenance_timeline r =
     three_milestones (max 3 (py_int (6 * (1.0 - min (max (get_or (risk_score r) 0.25) 0.0) 0.95 * 0.4)))) @
     (if 0.6 < get_or (risk_score r) 0.25
      then [\<lparr>timeframe = ''Next 30 days'',
              action = ''Schedule reliability assessment with specialist''\<rparr>]
      else [])"
  by (simp add: generate_maintenance_timeline_def three_milestones_def Let_def)

lemma three_milestones_days:
  assumes "k = 3 \<or> k = 4 \<or> k = 5 \<or> k = 6"
  shows "map (\<lambda>m. timeframe_days (timeframe m)) (three_milestones k) =
           [Some (nat (30 * k)), Some (nat (60 * k)), Some (nat (90 * k))]"
  using assms by (auto simp add: three_milestones_def months_days)

lemma three_milestones_nearest_first:
  assumes "k = 3 \<or> k = 4 \<or> k = 5 \<or> k = 6"
  shows "nearest_first (three_milestones k)"
  using assms by (auto simp add: nearest_first_def three_milestones_days)

text \<open>
  C2, as stated, fails: at a risk score of 0.7 the timeline is 4 months, 8 months,
  12 months and then "Next 30 days", so the fourth entry is nearer than the three before
  it and the list is not in increasing timeframe order.
\<close>

theorem timeline_not_nearest_first:
  "generate_maintenance_timeline high_risk_row =
     [\<lparr>timeframe = ''4 months'', action = ''Comprehensive inspection & fluid checks''\<rparr>,
      \<lparr>timeframe = ''8 months'', action = ''Predictive component diagnostics''\<rparr>,
      \<lparr>timeframe = ''12 months'', action = ''System software updates & alignment''\<rparr>,
      \<lparr>timeframe = ''Next 30 days'',
        action = ''Schedule reliability assessment with specialist''\<rparr>] \<and>
   map (\<lambda>m. timeframe_days (timeframe m)) (generate_maintenance_timeline high_risk_row) =
     [Some 120, Some 240, Some 360, Some 30] \<and>
   \<not> nearest_first (generate_maintenance_timeline high_risk_row)"
  by code_simp

text \<open>
  C2, amended. The timeline has exactly 4 entries when the risk score exceeds 0.6 and
  exactly 3 otherwise. Its first three milestones are at \<open>k\<close>, \<open>2k\<close> and \<open>3k\<close> months for
  an interval \<open>k\<close> of 3 to 6 months, in strictly increasing timeframe order, nearest
  first. When the risk score exceeds 0.6 the 30-day specialist assessment is appended
  after them as the fourth and last entry; otherwise the whole timeline is nearest-first.
\<close>

theorem timeline_shape:
  "\<exists>k. (k = 3 \<or> k = 4 \<or> k = 5 \<or> k = 6) \<and>
     take 3 (generate_maintenance_timeline r) =
       [\<lparr>timeframe = py_str k @ '' months'',
         action = ''Comprehensive inspection & fluid checks''\<rparr>,
        \<lparr>timeframe = py_str (k * 2) @ '' months'',
         action = ''Predictive component diagnostics''\<rparr>,
        \<lparr>timeframe = py_str (k * 3) @ '' months'',
         action = ''System software updates & alignment''\<rparr>] \<and>
     map (\<lambda>m. timeframe_days (timeframe m)) (take 3 (generate_maintenance_timeline r)) =
       [Some (nat (30 * k)), Some (nat (60 * k)), Some (nat (90 * k))] \<and>
     nearest_first (take 3 (generate_maintenance_timeline r)) \<and>
     (if 0.6 < get_or (risk_score r) 0.25
      then length (generate_maintenance_timeline r) = 4 \<and>
           drop 3 (generate_maintenance_timeline r) =
             [\<lparr>timeframe = ''Next 30 days'',
               action = ''Schedule reliability assessment with specialist''\<rparr>]
      else length (generate_maintenance_timeline r) = 3 \<and>
           nearest_first (generate_maintenance_timeline r))"
proof -
  define k where
    "k = max 3 (py_int (6 * (1.0 - min (max (get_or (risk_score r) 0.25) 0.0) 0.95 * 0.4)))"
  have range: "k = 3 \<or> k = 4 \<or> k = 5 \<or> k = 6"
    unfolding k_def by (rule interval_months_range)
  have gen: "generate_maintenance_timeline r =
     three_milestones k @
     (if 0.6 < get_or (risk_score r) 0.25
      then [\<lparr>timeframe = ''Next 30 days'',
              action = ''Schedule reliability assessment with specialist''\<rparr>]
      else [])"
    unfolding k_def by (rule generate_maintenance_timeline_unfold)
  have len: "length (three_milestones k) = 3"
    by (simp add: three_milestones_def)
  have first: "take 3 (generate_maintenance_timeline r) = three_milestones k"
    using len by (simp add: gen)
  have rest: "drop 3 (generate_maintenance_timeline r) =
     (if 0.6 < get_or (risk_score r) 0.25
      then [\<lparr>timeframe = ''Next 30 days'',
              action = ''Schedule reliability assessment with specialist''\<rparr>]
      else [])"
    using len by (simp add: gen)
  have whole: "\<not> 0.6 < get_or (risk_score r) 0.25 \<Longrightarrow>
      generate_maintenance_timeline r = three_milestones k"
    by (simp add: gen)
  show ?thesis
  proof (intro exI [of _ k] conjI)
    show "k = 3 \<or> k = 4 \<or> k = 5 \<or> k = 6" by (rule range)
    show "take 3 (generate_maintenance_timeline r) =
       [\<lparr>timeframe = py_str k @ '' months'',
         action = ''Comprehensive inspection & fluid checks''\<rparr>,
        \<lparr>timeframe = py_str (k * 2) @ '' months'',
         action = ''Predictive component diagnostics''\<rparr>,
        \<lparr>timeframe = py_str (k * 3) @ '' months'',
         action = ''System software updates & alignment''\<rparr>]"
      unfolding first by (simp add: three_milestones_def)
    show "map (\<lambda>m. timeframe_days (timeframe m)) (take 3 (generate_maintenance_timeline r)) =
       [Some (nat (30 * k)), Some (nat (60 * k)), Some (nat (90 * k))]"
      unfolding first using range by (rule three_milestones_days)
    show "nearest_first (take 3 (generate_maintenance_timeline r))"
      unfolding first using range by (rule three_milestones_nearest_first)
    show "if 0.6 < get_or (risk_score r) 0.25
      then length (generate_maintenance_timeline r) = 4 \<and>
           drop 3 (generate_maintenance_timeline r) =
             [\<lparr>timeframe = ''Next 30 days'',
               action = ''Schedule reliability assessment with specialist''\<rparr>]
      else length (generate_maintenance_timeline r) = 3 \<and>
           nearest_first (generate_maintenance_timeline r)"
    proof (cases "0.6 < get_or (risk_score r) 0.25")
      case True
      then show ?thesis using len rest by (simp add: gen)
    next
      case False
      then show ?thesis
        using len whole three_milestones_nearest_first [OF range] by simp
    qed
  qed
qed

theorem timeline_shape_witness:
  "length (generate_maintenance_timeline high_risk_row) = 4 \<and>
   nearest_first (take 3 (generate_maintenance_timeline high_risk_row)) \<and>
   length (generate_maintenance_timeline empty_row) = 3 \<and>
   nearest_first (generate_maintenance_timeline empty_row)"
proof -
  have a: "0.6 < get_or (risk_score high_risk_row) 0.25"
    by (simp add: high_risk_row_def empty_row_def get_or_def)
  have b: "\<not> 0.6 < get_or (risk_score empty_row) 0.25"
    by (simp add: empty_row_def get_or_def)
  show ?thesis
    using timeline_shape [of high_risk_row] timeline_shape [of empty_row] a b by auto
qed

subsection \<open>Sentiment scores\<close>

lemma split_from_append_space:
  "isspace c \<Longrightarrow> split_from cur (a @ c # b) = split_from cur a @ split_from [] b"
  by (induction a arbitrary: cur) auto

lemma py_split_append_space:
  "isspace c \<Longrightarrow> py_split (a @ c # b) = py_split a @ py_split b"
  by (simp add: py_split_def split_from_append_space)

lemma isspace_space: "isspace CHR '' ''"
  by (simp add: isspace_def)

lemma split_from_chars:
  "w \<in> set (split_from cur cs) \<Longrightarrow> set w \<subseteq> set cur \<union> {c \<in> set cs. \<not> isspace c}"
proof (induction cs arbitrary: cur)
  case Nil
  then show ?case by (auto split: if_splits)
next
  case (Cons c cs)
  show ?case
  proof (cases "isspace c")
    case True
    with Cons.prems have "w = rev cur \<or> w \<in> set (split_from [] cs)"
      by (auto split: if_splits)
    then show ?thesis
    proof
      assume "w = rev cur"
      then show ?thesis by auto
    next
      assume "w \<in> set (split_from [] cs)"
      from Cons.IH [OF this] show ?thesis by auto
    qed
  next
    case False
    with Cons.prems have "w \<in> set (split_from (c # cur) cs)" by simp
    from Cons.IH [OF this] False show ?thesis by auto
  qed
qed

lemma py_split_chars:
  "w \<in> set (py_split text) \<Longrightarrow> set w \<subseteq> {c \<in> set text. \<not> isspace c}"
  using split_from_chars [of w "[]" "text"] by (simp add: py_split_def)

lemma py_strip_all:
  assumes "set w \<subseteq> set chars"
  shows "py_strip chars w = []"
proof -
  have h: "dropWhile (\<lambda>c. c \<in> set chars) w = []"
    using assms by (induction w) auto
  show ?thesis unfolding py_strip_def h by simp
qed

lemma card_inter_list:
  "card (f ` set xs \<inter> P) = length (filter (\<lambda>w. w \<in> P) (remdups (map f xs)))"
proof -
  have "f ` set xs \<inter> P = set (filter (\<lambda>w. w \<in> P) (remdups (map f xs)))"
    by auto
  moreover have "distinct (filter (\<lambda>w. w \<in> P) (remdups (map f xs)))"
    by simp
  ultimately show ?thesis
    by (simp only: distinct_card)
qed

lemma card_positive_words: "card (W \<inter> POSITIVE_WORDS) \<le> 7"
proof -
  define L where "L = [''reliable'', ''smooth'', ''satisfied'', ''comfortable'',
      ''quiet'', ''refined'', ''responsive'']"
  have eq: "POSITIVE_WORDS = set L"
    by (simp add: POSITIVE_WORDS_def L_def)
  have "length L = 7" by (simp add: L_def)
  then have "card POSITIVE_WORDS \<le> 7"
    using card_length [of L] by (simp add: eq)
  moreover have "card (W \<inter> POSITIVE_WORDS) \<le> card POSITIVE_WORDS"
    by (intro card_mono) (simp_all add: eq)
  ultimately show ?thesis by linarith
qed

lemma card_negative_words: "card (W \<inter> NEGATIVE_WORDS) \<le> 10"
proof -
  define L where "L = [''frustrating'', ''disappointed'', ''unsafe'', ''annoying'',
      ''expensive'', ''noisy'', ''rough'', ''lag'', ''stall'', ''failure'']"
  have eq: "NEGATIVE_WORDS = set L"
    by (simp add: NEGATIVE_WORDS_def L_def)
  have "length L = 10" by (simp add: L_def)
  then have "card NEGATIVE_WORDS \<le> 10"
    using card_length [of L] by (simp add: eq)
  moreover have "card (W \<inter> NEGATIVE_WORDS) \<le> card NEGATIVE_WORDS"
    by (intro card_mono) (simp_all add: eq)
  ultimately show ?thesis by linarith
qed

lemma score_text_words:
  assumes "(\<lambda>word. py_lower (py_strip ''.,!?'' word)) ` set (py_split a) =
           (\<lambda>word. py_lower (py_strip ''.,!?'' word)) ` set (py_split b)"
  shows "score_text a = score_text b"
  using assms by (simp add: score_text_def)

text \<open>
  C6, as stated, fails. A word that occurs twice is counted once: "reliable reliable"
  scores 1 positive, where counting tokens gives 2. Punctuation is stripped from both ends of
  a token, not only from its end: "?smooth" scores 1 positive, where stripping trailing
  punctuation leaves "?smooth", which is in no word set.
\<close>

theorem sentiment_spec_differs:
  "score_text ''reliable reliable'' = \<lparr>positive = 1, negative = 0, net = 1\<rparr> \<and>
   score_text_spec ''reliable reliable'' = \<lparr>positive = 2, negative = 0, net = 2\<rparr> \<and>
   score_text ''?smooth'' = \<lparr>positive = 1, negative = 0, net = 1\<rparr> \<and>
   score_text_spec ''?smooth'' = \<lparr>positive = 0, negative = 0, net = 0\<rparr>"
  by code_simp

text \<open>
  C6, amended. The scorer splits the text at white space, strips the punctuation
  \<open>.,!?\<close> from both ends of each token and lower-cases it, and returns the number of
  distinct normalized words that are in the positive word set, the number that are in
  the negative word set, and the first minus the second. A text that is empty or made
  of white space and punctuation only scores (0, 0, 0).
\<close>

theorem score_text_counts:
  "score_text text =
     \<lparr>positive = int (length (filter (\<lambda>w. w \<in> POSITIVE_WORDS)
         (remdups (map (\<lambda>word. py_lower (py_strip ''.,!?'' word)) (py_split text))))),
      negative = int (length (filter (\<lambda>w. w \<in> NEGATIVE_WORDS)
         (remdups (map (\<lambda>word. py_lower (py_strip ''.,!?'' word)) (py_split text))))),
      net = int (length (filter (\<lambda>w. w \<in> POSITIVE_WORDS)
         (remdups (map (\<lambda>word. py_lower (py_strip ''.,!?'' word)) (py_split text))))) -
            int (length (filter (\<lambda>w. w \<in> NEGATIVE_WORDS)
         (remdups (map (\<lambda>word. py_lower (py_strip ''.,!?'' word)) (py_split text)))))\<rparr> \<and>
   ((\<forall>c \<in> set text. isspace c \<or> c \<in> set ''.,!?'') \<longrightarrow>
      score_text text = \<lparr>positive = 0, negative = 0, net = 0\<rparr>)"
proof (intro conjI impI)
  show "score_text text =
     \<lparr>positive = int (length (filter (\<lambda>w. w \<in> POSITIVE_WORDS)
         (remdups (map (\<lambda>word. py_lower (py_strip ''.,!?'' word)) (py_split text))))),
      negative = int (length (filter (\<lambda>w. w \<in> NEGATIVE_WORDS)
         (remdups (map (\<lambda>word. py_lower (py_strip ''.,!?'' word)) (py_split text))))),
      net = int (length (filter (\<lambda>w. w \<in> POSITIVE_WORDS)
         (remdups (map (\<lambda>word. py_lower (py_strip ''.,!?'' word)) (py_split text))))) -
            int (length (filter (\<lambda>w. w \<in> NEGATIVE_WORDS)
         (remdups (map (\<lambda>word. py_lower (py_strip ''.,!?'' word)) (py_split text)))))\<rparr>"
    by (simp only: score_text_def Let_def card_inter_list)
next
  assume punct: "\<forall>c \<in> set text. isspace c \<or> c \<in> set ''.,!?''"
  have "(\<lambda>word. py_lower (py_strip ''.,!?'' word)) ` set (py_split text) \<subseteq> {[]}"
  proof
    fix x
    assume "x \<in> (\<lambda>word. py_lower (py_strip ''.,!?'' word)) ` set (py_split text)"
    then obtain w where w: "w \<in> set (py_split text)" and x: "x = py_lower (py_strip ''.,!?'' w)"
      by auto
    have "set w \<subseteq> set ''.,!?''"
      using py_split_chars [OF w] punct by blast
    then have "py_strip ''.,!?'' w = []" by (rule py_strip_all)
    then show "x \<in> {[]}" by (simp add: x py_lower_def)
  qed
  moreover have "[] \<notin> POSITIVE_WORDS" "[] \<notin> NEGATIVE_WORDS"
    by (simp_all add: POSITIVE_WORDS_def NEGATIVE_WORDS_def)
  ultimately have
    "(\<lambda>word. py_lower (py_strip ''.,!?'' word)) ` set (py_split text) \<inter> POSITIVE_WORDS = {}"
    "(\<lambda>word. py_lower (py_strip ''.,!?'' word)) ` set (py_split text) \<inter> NEGATIVE_WORDS = {}"
    by auto
  then show "score_text text = \<lparr>positive = 0, negative = 0, net = 0\<rparr>"
    by (simp add: score_text_def)
qed

theorem score_text_counts_witness:
  "score_text ''This car is reliable and smooth but the battery is annoying'' =
     \<lparr>positive = 2, negative = 1, net = 1\<rparr> \<and>
   score_text '' ..  !?, '' = \<lparr>positive = 0, negative = 0, net = 0\<rparr> \<and>
   score_text [] = \<lparr>positive = 0, negative = 0, net = 0\<rparr>"
proof -
  have a: "\<forall>c \<in> set '' ..  !?, ''. isspace c \<or> c \<in> set ''.,!?''"
    by (simp add: isspace_def)
  have b: "\<forall>c \<in> set ([] :: string). isspace c \<or> c \<in> set ''.,!?''"
    by simp
  have c: "score_text ''This car is reliable and smooth but the battery is annoying'' =
     \<lparr>positive = 2, negative = 1, net = 1\<rparr>"
    using score_text_counts [of "''This car is reliable and smooth but the battery is annoying''"]
    by code_simp
  have d: "score_text '' ..  !?, '' = \<lparr>positive = 0, negative = 0, net = 0\<rparr>"
    using score_text_counts [of "'' ..  !?, ''"] a by blast
  have e: "score_text [] = \<lparr>positive = 0, negative = 0, net = 0\<rparr>"
    using score_text_counts [of "[]"] b by blast
  show ?thesis
    using c d e by blast
qed

text \<open>
  C10. Each distinct normalized word counts once: the counts are at most 7 and 10, the
  sizes of the two word sets, and a text followed by itself, or by any text whose
  normalized words all occur in it already, has the scores of the text alone.
\<close>

theorem score_text_distinct_words:
  "0 \<le> positive (score_text text) \<and> positive (score_text text) \<le> 7 \<and>
   0 \<le> negative (score_text text) \<and> negative (score_text text) \<le> 10 \<and>
   score_text (text @ '' '' @ text) = score_text text \<and>
   ((\<lambda>word. py_lower (py_strip ''.,!?'' word)) ` set (py_split extra) \<subseteq>
      (\<lambda>word. py_lower (py_strip ''.,!?'' word)) ` set (py_split text) \<longrightarrow>
    score_text (text @ '' '' @ extra) = score_text text)"
proof -
  have rep: "score_text (text @ '' '' @ extra) = score_text text"
    if "(\<lambda>word. py_lower (py_strip ''.,!?'' word)) ` set (py_split extra) \<subseteq>
      (\<lambda>word. py_lower (py_strip ''.,!?'' word)) ` set (py_split text)" for extra
  proof (rule score_text_words)
    have "py_split (text @ '' '' @ extra) = py_split text @ py_split extra"
      using py_split_append_space [OF isspace_space, of "text" extra] by simp
    then show "(\<lambda>word. py_lower (py_strip ''.,!?'' word)) ` set (py_split (text @ '' '' @ extra)) =
           (\<lambda>word. py_lower (py_strip ''.,!?'' word)) ` set (py_split text)"
      using that by (auto simp add: image_Un)
  qed
  have "score_text (text @ '' '' @ text) = score_text text"
    by (rule rep) simp
  moreover have "positive (score_text text) \<le> 7" "negative (score_text text) \<le> 10"
    using card_positive_words card_negative_words by (simp_all add: score_text_def Let_def)
  moreover have "0 \<le> positive (score_text text)" "0 \<le> negative (score_text text)"
    by (simp_all add: score_text_def Let_def)
  ultimately show ?thesis using rep by blast
qed

theorem score_text_distinct_words_witness:
  "score_text ''smooth, smooth and SMOOTH! noisy noisy'' =
     \<lparr>positive = 1, negative = 1, net = 0\<rparr> \<and>
   score_text (''smooth noisy'' @ '' '' @ ''Noisy! smooth.'') = score_text ''smooth noisy''"
proof -
  have a: "(\<lambda>word. py_lower (py_strip ''.,!?'' word)) ` set (py_split ''Noisy! smooth.'') \<subseteq>
      (\<lambda>word. py_lower (py_strip ''.,!?'' word)) ` set (py_split ''smooth noisy'')"
    by code_simp
  have b: "score_text ''smooth, smooth and SMOOTH! noisy noisy'' =
     \<lparr>positive = 1, negative = 1, net = 0\<rparr>"
    by code_simp
  show ?thesis
    using score_text_distinct_words [of "''smooth noisy''" "''Noisy! smooth.''"] a b
    by blast
qed

subsection \<open>Inference\<close>

text \<open>
  The store versions of feature engineering and sentiment enrichment leave every object
  they were given as it is: they add one object, the copy, and what they return is its
  address, its columns being those that the functions on rows compute.
\<close>

lemma alloc_result [simp]:
  "alloc r w = (length (objects w), w\<lparr>objects := objects w @ [r]\<rparr>)"
  by (simp add: alloc_def)

lemma column_assign_last:
  "column_assign (length xs) f (w\<lparr>objects := xs @ [r]\<rparr>) = w\<lparr>objects := xs @ [f r]\<rparr>"
  by (simp add: column_assign_def)

lemma engineer_domain_features_store_refines:
  "\<exists>r'. snd (engineer_domain_features_store df w) = w\<lparr>objects := objects w @ [r']\<rparr> \<and>
     (case engineer_domain_features (objects w ! df) of
        Inl e \<Rightarrow> fst (engineer_domain_features_store df w) = Inl e
      | Inr r \<Rightarrow> fst (engineer_domain_features_store df w) = Inr (length (objects w)) \<and> r' = r)"
  by (auto simp add: engineer_domain_features_store_def engineer_domain_features_def Let_def
      column_assign_last split: option.splits)

lemma append_sentiment_scores_store_refines:
  assumes "df < length (objects w)"
  shows "\<exists>r'. snd (append_sentiment_scores_store df w) = w\<lparr>objects := objects w @ [r']\<rparr> \<and>
     (case append_sentiment_scores (objects w ! df) of
        Inl e \<Rightarrow> fst (append_sentiment_scores_store df w) = Inl e
      | Inr r \<Rightarrow> fst (append_sentiment_scores_store df w) = Inr (length (objects w)) \<and> r' = r)"
  using assms
  by (auto simp add: append_sentiment_scores_store_def append_sentiment_scores_def Let_def
      column_assign_last nth_append split: option.splits)

lemma objects_column_assign:
  "objects (column_assign a f w) = (objects w)[a := f (objects w ! a)]"
  by (simp add: column_assign_def)

lemma pipeline_column_assign: "pipeline (column_assign a f w) = pipeline w"
  by (simp add: column_assign_def)

lemma prepare_frame_refines:
  assumes "rec < length (objects w)"
  shows "\<exists>xs. snd (prepare_frame rec w) = w\<lparr>objects := objects w @ xs\<rparr> \<and>
     (case engineer_domain_features (objects w ! rec) of
        Inl e \<Rightarrow> fst (prepare_frame rec w) = Inl e
      | Inr r1 \<Rightarrow>
          (case append_sentiment_scores r1 of
             Inl e \<Rightarrow> fst (prepare_frame rec w) = Inl e
           | Inr r2 \<Rightarrow>
               (\<exists>a. fst (prepare_frame rec w) = Inr a \<and> length (objects w) \<le> a \<and>
                    a < length (objects w @ xs) \<and> (objects w @ xs) ! a = r2)))"
proof -
  define r0 where "r0 = objects w ! rec"
  define w1 where "w1 = w\<lparr>objects := objects w @ [r0]\<rparr>"
  have w1: "objects w1 = objects w @ [r0]" "objects w1 ! length (objects w) = r0"
    by (simp_all add: w1_def)
  have start: "prepare_frame rec w =
     (case engineer_domain_features_store (length (objects w)) w1 of
        (Inl e, w2) \<Rightarrow> (Inl e, w2)
      | (Inr engineered, w2) \<Rightarrow> append_sentiment_scores_store engineered w2)"
    by (simp add: prepare_frame_def w1_def r0_def)
  obtain r' where eng:
    "snd (engineer_domain_features_store (length (objects w)) w1) =
       w1\<lparr>objects := objects w1 @ [r']\<rparr>"
    "case engineer_domain_features r0 of
        Inl e \<Rightarrow> fst (engineer_domain_features_store (length (objects w)) w1) = Inl e
      | Inr r \<Rightarrow> fst (engineer_domain_features_store (length (objects w)) w1) =
                  Inr (length (objects w1)) \<and> r' = r"
    using engineer_domain_features_store_refines [of "length (objects w)" w1] w1(2) by auto
  define w2 where "w2 = w1\<lparr>objects := objects w1 @ [r']\<rparr>"
  have w2: "objects w2 = objects w @ [r0, r']" "w2 = w\<lparr>objects := objects w @ [r0, r']\<rparr>"
    by (simp_all add: w2_def w1_def)
  show ?thesis
  proof (cases "engineer_domain_features r0")
    case (Inl e)
    with eng have "engineer_domain_features_store (length (objects w)) w1 = (Inl e, w2)"
      by (simp add: prod_eq_iff w2_def)
    then have "prepare_frame rec w = (Inl e, w2)"
      by (simp add: start)
    then show ?thesis
      using Inl w2(2) by (auto simp add: r0_def)
  next
    case (Inr r1)
    with eng have r1: "r' = r1"
      and run: "engineer_domain_features_store (length (objects w)) w1 = (Inr (length (objects w1)), w2)"
      by (simp_all add: prod_eq_iff w2_def)
    have step: "prepare_frame rec w = append_sentiment_scores_store (length (objects w1)) w2"
      by (simp add: start run)
    have inside: "length (objects w1) < length (objects w2)"
      by (simp add: w1 w2)
    have content: "objects w2 ! length (objects w1) = r1"
      by (simp add: w1 w2 r1 nth_append)
    obtain r'' where app:
      "snd (append_sentiment_scores_store (length (objects w1)) w2) =
         w2\<lparr>objects := objects w2 @ [r'']\<rparr>"
      "case append_sentiment_scores r1 of
          Inl e \<Rightarrow> fst (append_sentiment_scores_store (length (objects w1)) w2) = Inl e
        | Inr r \<Rightarrow> fst (append_sentiment_scores_store (length (objects w1)) w2) =
                    Inr (length (objects w2)) \<and> r'' = r"
      using append_sentiment_scores_store_refines [OF inside] content by auto
    have final: "snd (prepare_frame rec w) = w\<lparr>objects := objects w @ [r0, r', r'']\<rparr>"
      unfolding step app(1) by (simp add: w2)
    show ?thesis
    proof (cases "append_sentiment_scores r1")
      case (Inl e)
      with app(2) have "fst (prepare_frame rec w) = Inl e"
        by (simp add: step)
      then show ?thesis
        using final Inl \<open>engineer_domain_features r0 = Inr r1\<close> by (auto simp add: r0_def)
    next
      case (Inr r2)
      with app(2) have res: "fst (prepare_frame rec w) = Inr (length (objects w2))" and "r'' = r2"
        by (simp_all add: step)
      have "(objects w @ [r0, r', r'']) ! length (objects w2) = r2"
        using \<open>r'' = r2\<close> by (simp add: w2 nth_append)
      moreover have "length (objects w) \<le> length (objects w2)"
        "length (objects w2) < length (objects w @ [r0, r', r''])"
        by (simp_all add: w2)
      ultimately show ?thesis
        using final res Inr \<open>engineer_domain_features r0 = Inr r1\<close>
        by (auto simp add: r0_def)
    qed
  qed
qed

text \<open>
  \<open>predict\<close> only adds objects to the store, and its outcome is a function of the
  columns of the record and of the pipeline object.
\<close>

lemma predict_refines:
  assumes "rec < length (objects w)"
  shows "(\<exists>xs. objects (snd (predict predict_proba rec w)) = objects w @ xs) \<and>
     fst (predict predict_proba rec w) =
       (case engineer_domain_features (objects w ! rec) of
          Inl e \<Rightarrow> Inl e
        | Inr r1 \<Rightarrow>
       (case append_sentiment_scores r1 of
          Inl e \<Rightarrow> Inl e
        | Inr frame \<Rightarrow>
       (case fst (predict_proba (pipeline w) frame) of
          Inl e \<Rightarrow> Inl e
        | Inr proba \<Rightarrow>
       (case compute_cost_of_ownership (frame\<lparr>risk_score := Some proba\<rparr>) 12000 3.5 26 of
          Inl e \<Rightarrow> Inl e
        | Inr cost \<Rightarrow>
            Inr \<lparr>probability = proba, risk_band = to_risk_band proba, cost_projection = cost,
                 maintenance_timeline =
                   generate_maintenance_timeline (frame\<lparr>risk_score := Some proba\<rparr>)\<rparr>)))) \<and>
     pipeline (snd (predict predict_proba rec w)) =
       (case engineer_domain_features (objects w ! rec) of
          Inl e \<Rightarrow> pipeline w
        | Inr r1 \<Rightarrow>
       (case append_sentiment_scores r1 of
          Inl e \<Rightarrow> pipeline w
        | Inr frame \<Rightarrow> snd (predict_proba (pipeline w) frame)))"
proof -
  obtain xs where shape: "snd (prepare_frame rec w) = w\<lparr>objects := objects w @ xs\<rparr>"
    and outcome: "case engineer_domain_features (objects w ! rec) of
        Inl e \<Rightarrow> fst (prepare_frame rec w) = Inl e
      | Inr r1 \<Rightarrow>
          (case append_sentiment_scores r1 of
             Inl e \<Rightarrow> fst (prepare_frame rec w) = Inl e
           | Inr r2 \<Rightarrow>
               (\<exists>a. fst (prepare_frame rec w) = Inr a \<and> length (objects w) \<le> a \<and>
                    a < length (objects w @ xs) \<and> (objects w @ xs) ! a = r2))"
    using prepare_frame_refines [OF assms] by blast
  define w1 where "w1 = w\<lparr>objects := objects w @ xs\<rparr>"
  have w1: "objects w1 = objects w @ xs" "pipeline w1 = pipeline w"
    by (simp_all add: w1_def)
  have failed: ?thesis if "fst (prepare_frame rec w) = Inl e"
    and "(case engineer_domain_features (objects w ! rec) of
          Inl e' \<Rightarrow> e' = e
        | Inr r1 \<Rightarrow> (case append_sentiment_scores r1 of Inl e' \<Rightarrow> e' = e | Inr r2 \<Rightarrow> False))" for e
  proof -
    have "prepare_frame rec w = (Inl e, w1)"
      using that(1) shape by (simp add: prod_eq_iff w1_def)
    then have "predict predict_proba rec w = (Inl e, w1)"
      by (simp add: predict_def)
    then show ?thesis
      using that(2) w1 by (auto split: sum.splits)
  qed
  show ?thesis
  proof (cases "engineer_domain_features (objects w ! rec)")
    case (Inl e)
    then show ?thesis using outcome by (intro failed [of e]) simp_all
  next
    case eng: (Inr r1)
    show ?thesis
    proof (cases "append_sentiment_scores r1")
      case (Inl e)
      then show ?thesis using outcome eng by (intro failed [of e]) simp_all
    next
      case app: (Inr r2)
      then obtain a where a: "fst (prepare_frame rec w) = Inr a" "length (objects w) \<le> a"
        "a < length (objects w @ xs)" "(objects w @ xs) ! a = r2"
        using outcome eng by auto
      have prep: "prepare_frame rec w = (Inr a, w1)"
        using a(1) shape by (simp add: prod_eq_iff w1_def)
      obtain res p where pp: "predict_proba (pipeline w) r2 = (res, p)"
        by (cases "predict_proba (pipeline w) r2")
      show ?thesis
      proof (cases res)
        case (Inl e)
        then have "predict predict_proba rec w = (Inl e, w1\<lparr>pipeline := p\<rparr>)"
          using prep pp a(4) by (simp add: predict_def w1)
        then show ?thesis
          using eng app pp Inl w1 by auto
      next
        case (Inr proba)
        define w3 where
          "w3 = column_assign a (\<lambda>r. r\<lparr>risk_score := Some proba\<rparr>) (w1\<lparr>pipeline := p\<rparr>)"
        have obj3: "objects w3 = (objects w @ xs)[a := r2\<lparr>risk_score := Some proba\<rparr>]"
          using a(4) by (simp add: w3_def objects_column_assign w1)
        have at3: "objects w3 ! a = r2\<lparr>risk_score := Some proba\<rparr>"
          using a(3) by (simp add: obj3)
        have pre3: "objects w3 = objects w @ xs[a - length (objects w) := r2\<lparr>risk_score := Some proba\<rparr>]"
          using a(2) by (simp add: obj3 list_update_append)
        have pipe3: "pipeline w3 = p"
          by (simp add: w3_def pipeline_column_assign)
        have run: "predict predict_proba rec w =
          (case compute_cost_of_ownership (r2\<lparr>risk_score := Some proba\<rparr>) 12000 3.5 26 of
             Inl e \<Rightarrow> (Inl e, w3)
           | Inr cost \<Rightarrow>
               (Inr \<lparr>probability = proba, risk_band = to_risk_band proba, cost_projection = cost,
                     maintenance_timeline =
                       generate_maintenance_timeline (r2\<lparr>risk_score := Some proba\<rparr>)\<rparr>, w3))"
          using prep pp Inr a(4) at3 [unfolded w3_def]
          by (simp add: predict_def w1 Let_def w3_def cong: sum.case_cong)
        have "snd (predict predict_proba rec w) = w3"
          by (simp add: run split: sum.splits)
        then show ?thesis
          using eng app pp Inr pre3 pipe3 by (auto simp add: run split: sum.splits)
      qed
    qed
  qed
qed

text \<open>
  C9. A call of \<open>predict\<close> changes no object that existed before it, the caller's record
  among them: its column assignments go to frames that it made itself. So when the
  trained pipeline is unchanged after the first call, a second call with the same record
  returns the same outcome as the first, the same prediction result or the same error.
\<close>

theorem predict_idempotent:
  assumes "rec < length (objects w)"
    and "pipeline (snd (predict predict_proba rec w)) = pipeline w"
  shows "(\<forall>a < length (objects w). objects (snd (predict predict_proba rec w)) ! a = objects w ! a) \<and>
     fst (predict predict_proba rec (snd (predict predict_proba rec w))) =
       fst (predict predict_proba rec w)"
proof -
  define w' where "w' = snd (predict predict_proba rec w)"
  obtain xs where grow: "objects w' = objects w @ xs"
    using predict_refines [OF assms(1), of predict_proba] by (auto simp add: w'_def)
  have kept: "objects w' ! a = objects w ! a" if "a < length (objects w)" for a
    using that by (simp add: grow nth_append)
  have rec': "rec < length (objects w')"
    using assms(1) by (simp add: grow)
  have same: "objects w' ! rec = objects w ! rec" "pipeline w' = pipeline w"
    using kept [OF assms(1)] assms(2) by (simp_all add: w'_def)
  have "fst (predict predict_proba rec w') = fst (predict predict_proba rec w)"
    using predict_refines [OF rec', of predict_proba, unfolded same]
      predict_refines [OF assms(1), of predict_proba]
    by simp
  then show ?thesis
    using kept by (simp add: w'_def)
qed

lemma predict_example:
  "fst (predict example_predict_proba 0 example_world) =
     Inr \<lparr>probability = 0.7, risk_band = ''High'',
          cost_projection = \<lparr>maintenance_projection = 896.4, fuel_cost_projection = 1615.38,
            depreciation_estimate = 500, total_projection = 3011.78\<rparr>,
          maintenance_timeline =
            [\<lparr>timeframe = ''4 months'', action = ''Comprehensive inspection & fluid checks''\<rparr>,
             \<lparr>timeframe = ''8 months'', action = ''Predictive component diagnostics''\<rparr>,
             \<lparr>timeframe = ''12 months'', action = ''System software updates & alignment''\<rparr>,
             \<lparr>timeframe = ''Next 30 days'',
               action = ''Schedule reliability assessment with specialist''\<rparr>]\<rparr>"
  "length (objects (snd (predict example_predict_proba 0 example_world))) = 4"
  "risk_score (objects (snd (predict example_predict_proba 0 example_world)) ! 3) = Some 0.7"
  by code_simp+

theorem predict_idempotent_witness:
  "objects (snd (predict example_predict_proba 0 example_world)) ! 0 = example_record \<and>
   fst (predict example_predict_proba 0 (snd (predict example_predict_proba 0 example_world))) =
     fst (predict example_predict_proba 0 example_world) \<and>
   risk_band (projr (fst (predict example_predict_proba 0 example_world))) = ''High''"
proof -
  have a: "0 < length (objects example_world)"
    by (simp add: example_world_def)
  have b: "pipeline (snd (predict example_predict_proba 0 example_world)) = pipeline example_world"
    by code_simp
  have c: "objects example_world ! 0 = example_record"
    by (simp add: example_world_def)
  have d: "risk_band (projr (fst (predict example_predict_proba 0 example_world))) = ''High''"
    by (simp add: predict_example(1))
  show ?thesis
    using predict_idempotent [OF a b] a c d by simp
qed

text \<open>
  The pipeline has to be unchanged: with a pipeline that counts its calls, the second
  call returns another result.
\<close>

lemma predict_changed_pipeline_differs:
  "pipeline (snd (predict counting_predict_proba 0 example_world)) \<noteq> pipeline example_world"
  "fst (predict counting_predict_proba 0 (snd (predict counting_predict_proba 0 example_world))) \<noteq>
     fst (predict counting_predict_proba 0 example_world)"
  by code_simp+

subsection \<open>Complaint patterns\<close>

text \<open>The first half of C5 holds: an empty frame gives an empty list.\<close>

lemma identify_empty_frame: "identify_common_failure_patterns analyze [] top_n = Inr []"
  by (simp add: identify_common_failure_patterns_def)

lemma fit_transform_no_frequent_term:
  assumes "\<forall>t \<in> set (concat (map an corpus)). document_frequency an corpus t < 2"
  shows "\<exists>msg. fit_transform an 2 corpus = Inl (ValueError msg)"
proof -
  have "\<not> 2 \<le> document_frequency an corpus t"
    if "t \<in> set (remdups (concat (map an corpus)))" for t
  proof -
    from that have "t \<in> set (concat (map an corpus))" by simp
    with assms have "document_frequency an corpus t < 2" by blast
    then show ?thesis by simp
  qed
  then have "filter (\<lambda>t. 2 \<le> document_frequency an corpus t) (remdups (concat (map an corpus))) = []"
    by (intro filter_False) blast
  then show ?thesis
    by (simp add: fit_transform_def Let_def)
qed

text \<open>
  C5, second half: the source does not return an empty list for a non-empty corpus in
  which no phrase occurs in two documents. Whatever the analyzer, the vectorizer raises
  \<open>ValueError\<close> there (empty vocabulary, fewer documents than \<open>min_df\<close>, or no term
  left after pruning), \<open>identify_common_failure_patterns\<close> does not catch it, and the call
  fails.
\<close>

theorem no_frequent_phrase_raises:
  assumes "df \<noteq> []"
    and "those (map complaint_text df) = Some corpus"
    and "\<forall>t \<in> set (concat (map (analyze (2, 3)) corpus)).
           document_frequency (analyze (2, 3)) corpus t < 2"
  shows "\<exists>msg. identify_common_failure_patterns analyze df top_n = Inl (ValueError msg)"
proof -
  obtain msg where "fit_transform (analyze (2, 3)) 2 corpus = Inl (ValueError msg)"
    using fit_transform_no_frequent_term [OF assms(3)] by blast
  then have "tokenize_phrases analyze corpus (2, 3) = Inl (ValueError msg)"
    by (simp add: tokenize_phrases_def)
  then show ?thesis
    using assms(1,2) by (simp add: identify_common_failure_patterns_def)
qed

theorem no_frequent_phrase_raises_witness:
  "\<exists>msg. identify_common_failure_patterns plain_analyzer complaint_rows 8 =
           Inl (ValueError msg)"
proof -
  have a: "complaint_rows \<noteq> []"
    by (simp add: complaint_rows_def)
  have b: "those (map complaint_text complaint_rows) = Some [''brake squeal'', ''engine stall'']"
    by (simp add: complaint_rows_def empty_row_def)
  have c: "\<forall>t \<in> set (concat (map (plain_analyzer (2, 3)) [''brake squeal'', ''engine stall''])).
           document_frequency (plain_analyzer (2, 3)) [''brake squeal'', ''engine stall''] t < 2"
    by code_simp
  show ?thesis
    using no_frequent_phrase_raises
      [where df = complaint_rows and analyze = plain_analyzer
         and corpus = "[''brake squeal'', ''engine stall'']" and top_n = 8, OF a b c] .
qed

lemma complaint_rows_raise:
  "identify_common_failure_patterns plain_analyzer complaint_rows 8 =
     Inl (ValueError ''After pruning, no terms remain. Try a lower min_df or a higher max_df.'')"
proof -
  have a: "plain_analyzer (2, 3) ''brake squeal'' = [''brake squeal'']"
    "plain_analyzer (2, 3) ''engine stall'' = [''engine stall'']"
    by code_simp+
  have "fit_transform (plain_analyzer (2, 3)) 2 [''brake squeal'', ''engine stall''] =
     Inl (ValueError ''After pruning, no terms remain. Try a lower min_df or a higher max_df.'')"
    by (simp add: fit_transform_def Let_def document_frequency_def a)
  then show ?thesis
    by (simp add: identify_common_failure_patterns_def complaint_rows_def empty_row_def
        tokenize_phrases_def)
qed

end
